theory Spec2Isabelle
  imports Main "HOL-Library.Word"
begin

unbundle bit_operations_syntax

section \<open>Python values used by \<open>bitcoinutils/hdwallet.py\<close>\<close>

text \<open>
  A Python \<open>bytes\<close> object is a list of 8-bit words. A Python \<open>str\<close> is the list of its
  code points, each a number below \<open>0x110000\<close>, lone surrogates included: \<open>len\<close> counts
  code points and a slice cuts between them. The functions of the class \<open>HDW\<close> are
  handed either kind of sequence (the annotations are not enforced), so an argument is a
  \<open>pyseq\<close>.
\<close>

type_synonym byte = "8 word"

type_synonym pystr = "nat list"

datatype pyseq = PyStr pystr | PyBytes "byte list"

datatype error =
    ValueError string
  | TypeError string
  | UnicodeEncodeError string
  | BinasciiError string
  | StructError string
  | MalformedPointError string

text \<open>The three \<open>ValueError\<close>s raised by the class itself, under the names the
  specification gives them.\<close>

definition UnsupportedMnemonicLength :: error where
  "UnsupportedMnemonicLength = ValueError ''Unsupported number of words in mnemonic.''"

definition InvalidExtendedKeyLength :: error where
  "InvalidExtendedKeyLength = ValueError ''Invalid xprivate key.''"

definition NotARootKey :: error where
  "NotARootKey = ValueError ''Invalid root xprivate key.''"

text \<open>\<open>s[a:b]\<close> and \<open>s[a:]\<close> for non-negative literal bounds.\<close>

definition slice :: "nat \<Rightarrow> nat \<Rightarrow> 'a list \<Rightarrow> 'a list" where
  "slice a b xs = take (b - a) (drop a xs)"

fun py_len :: "pyseq \<Rightarrow> nat" where
  "py_len (PyStr s) = length s"
| "py_len (PyBytes bs) = length bs"

fun py_slice :: "nat \<Rightarrow> nat \<Rightarrow> pyseq \<Rightarrow> pyseq" where
  "py_slice a b (PyStr s) = PyStr (slice a b s)"
| "py_slice a b (PyBytes bs) = PyBytes (slice a b bs)"

fun py_from :: "nat \<Rightarrow> pyseq \<Rightarrow> pyseq" where
  "py_from a (PyStr s) = PyStr (drop a s)"
| "py_from a (PyBytes bs) = PyBytes (drop a bs)"

text \<open>The literals \<open>b"..."\<close> and \<open>"..."\<close> of ASCII characters.\<close>

definition ascii_bytes :: "string \<Rightarrow> byte list" where
  "ascii_bytes s = map (\<lambda>c. of_char c) s"

definition ascii_str :: "string \<Rightarrow> pystr" where
  "ascii_str s = map (\<lambda>c. of_char c) s"

subsection \<open>\<open>str.encode("utf-8")\<close>\<close>

text \<open>
  One to four bytes for a code point. A surrogate (\<open>0xD800\<close> to \<open>0xDFFF\<close>) has no
  encoding: the method raises \<open>UnicodeEncodeError\<close> at the first one.
\<close>

definition utf8_char :: "nat \<Rightarrow> byte list option" where
  "utf8_char c =
     (if c < 0x80 then Some [of_nat c]
      else if c < 0x800 then Some [of_nat (0xC0 + c div 64), of_nat (0x80 + c mod 64)]
      else if 0xD800 \<le> c \<and> c < 0xE000 then None
      else if c < 0x10000 then
        Some [of_nat (0xE0 + c div 4096), of_nat (0x80 + c div 64 mod 64),
              of_nat (0x80 + c mod 64)]
      else if c < 0x110000 then
        Some [of_nat (0xF0 + c div 262144), of_nat (0x80 + c div 4096 mod 64),
              of_nat (0x80 + c div 64 mod 64), of_nat (0x80 + c mod 64)]
      else None)"

fun encode_utf8 :: "pystr \<Rightarrow> error + byte list" where
  "encode_utf8 [] = Inr []"
| "encode_utf8 (c # cs) =
     (case utf8_char c of
        None \<Rightarrow> Inl (UnicodeEncodeError ''surrogates not allowed'')
      | Some bs \<Rightarrow>
          (case encode_utf8 cs of
             Inl e \<Rightarrow> Inl e
           | Inr r \<Rightarrow> Inr (bs @ r)))"

text \<open>The strings that can be encoded: no surrogate among the code points.\<close>

definition encodable :: "pystr \<Rightarrow> bool" where
  "encodable s = list_all (\<lambda>c. c < 0x110000 \<and> \<not> (0xD800 \<le> c \<and> c < 0xE000)) s"

subsection \<open>\<open>binascii\<close>\<close>

text \<open>\<open>b2a_hex\<close> writes every byte as two lower-case hexadecimal digits and accepts
  bytes-like objects only.\<close>

definition hex_digit :: "nat \<Rightarrow> byte" where
  "hex_digit n = (if n < 10 then of_nat (48 + n) else of_nat (87 + n))"

definition hex_of_byte :: "byte \<Rightarrow> byte list" where
  "hex_of_byte b = [hex_digit (unat b div 16), hex_digit (unat b mod 16)]"

definition hexlify :: "byte list \<Rightarrow> byte list" where
  "hexlify bs = concat (map hex_of_byte bs)"

fun b2a_hex :: "pyseq \<Rightarrow> error + pyseq" where
  "b2a_hex (PyStr s) = Inl (TypeError ''a bytes-like object is required, not str'')"
| "b2a_hex (PyBytes bs) = Inr (PyBytes (hexlify bs))"

text \<open>\<open>unhexlify\<close> of a \<open>str\<close>: ASCII only, an even number of digits, either case.
  \<open>hex_value\<close> is the value of the digit with the given code point.\<close>

definition hex_value :: "nat \<Rightarrow> nat option" where
  "hex_value c =
     (if 48 \<le> c \<and> c \<le> 57 then Some (c - 48)
      else if 97 \<le> c \<and> c \<le> 102 then Some (c - 87)
      else if 65 \<le> c \<and> c \<le> 70 then Some (c - 55)
      else None)"

fun unhex_pairs :: "pystr \<Rightarrow> byte list option" where
  "unhex_pairs [] = Some []"
| "unhex_pairs [c] = None"
| "unhex_pairs (c # d # cs) =
     (case (hex_value c, hex_value d, unhex_pairs cs) of
        (Some h, Some l, Some bs) \<Rightarrow> Some (of_nat (16 * h + l) # bs)
      | _ \<Rightarrow> None)"

definition unhexlify :: "pystr \<Rightarrow> error + byte list" where
  "unhexlify s =
     (if list_ex (\<lambda>c. c \<ge> 128) s
        then Inl (ValueError ''string argument should contain only ASCII characters'')
      else if odd (length s) then Inl (BinasciiError ''Odd-length string'')
      else (case unhex_pairs s of
              None \<Rightarrow> Inl (BinasciiError ''Non-hexadecimal digit found'')
            | Some bs \<Rightarrow> Inr bs))"

subsection \<open>\<open>int.from_bytes\<close> and \<open>struct.unpack\<close>\<close>

definition from_bytes_big :: "byte list \<Rightarrow> nat" where
  "from_bytes_big bs = foldl (\<lambda>acc b. 256 * acc + unat b) 0 bs"

fun int_from_bytes :: "pyseq \<Rightarrow> error + nat" where
  "int_from_bytes (PyStr s) = Inl (TypeError ''cannot convert str object to bytes'')"
| "int_from_bytes (PyBytes bs) = Inr (from_bytes_big bs)"

text \<open>\<open>struct.unpack(">L", b)[0]\<close>: exactly four bytes, read big-endian.\<close>

fun struct_unpack_L :: "pyseq \<Rightarrow> error + nat" where
  "struct_unpack_L (PyStr s) = Inl (TypeError ''a bytes-like object is required, not str'')"
| "struct_unpack_L (PyBytes bs) =
     (if length bs \<noteq> 4 then Inl (StructError ''unpack requires a buffer of 4 bytes'')
      else Inr (from_bytes_big bs))"

subsection \<open>\<open>ecdsa.SigningKey\<close>\<close>

text \<open>
  \<open>SigningKey.from_string(s, curve=SECP256k1)\<close> takes exactly 32 bytes and requires the
  secret exponent they spell, big-endian, to lie in \<open>1 \<le> e < n\<close> for the order \<open>n\<close> of
  the curve. A signing key is its exponent; the verifying key is the one of that signing
  key (the curve point is not computed here).
\<close>

definition secp256k1_order :: nat where
  "secp256k1_order = 0xFFFFFFFFFFFFFFFFFFFFFFFFFFFFFFFEBAAEDCE6AF48A03BBFD25E8CD0364141"

datatype signing_key = SigningKey nat

datatype verifying_key = VerifyingKeyOf signing_key

fun SigningKey_from_string :: "pyseq \<Rightarrow> error + signing_key" where
  "SigningKey_from_string (PyStr s) =
     Inl (TypeError ''a bytes-like object is required, not str'')"
| "SigningKey_from_string (PyBytes bs) =
     (if length bs \<noteq> 32 then Inl (MalformedPointError ''Invalid length of private key'')
      else if 1 \<le> from_bytes_big bs \<and> from_bytes_big bs < secp256k1_order
        then Inr (SigningKey (from_bytes_big bs))
      else Inl (MalformedPointError ''Invalid value for secexp''))"

definition get_verifying_key :: "signing_key \<Rightarrow> verifying_key" where
  "get_verifying_key k = VerifyingKeyOf k"

subsection \<open>\<open>hashlib\<close> and \<open>hmac\<close>: SHA-512, HMAC and PBKDF2\<close>

text \<open>
  The digest functions are those of the interpreter's library. They are written out here
  (FIPS 180-4 for SHA-512, RFC 2104 for HMAC, RFC 8018 for PBKDF2) so that the lengths
  and the splitting of their results are facts about the functions and not assumptions.
\<close>

type_synonym w64 = "64 word"

type_synonym sha512_state = "w64 \<times> w64 \<times> w64 \<times> w64 \<times> w64 \<times> w64 \<times> w64 \<times> w64"

definition sha512_K :: "w64 list" where
  "sha512_K =
    [0x428A2F98D728AE22, 0x7137449123EF65CD, 0xB5C0FBCFEC4D3B2F, 0xE9B5DBA58189DBBC,
     0x3956C25BF348B538, 0x59F111F1B605D019, 0x923F82A4AF194F9B, 0xAB1C5ED5DA6D8118,
     0xD807AA98A3030242, 0x12835B0145706FBE, 0x243185BE4EE4B28C, 0x550C7DC3D5FFB4E2,
     0x72BE5D74F27B896F, 0x80DEB1FE3B1696B1, 0x9BDC06A725C71235, 0xC19BF174CF692694,
     0xE49B69C19EF14AD2, 0xEFBE4786384F25E3, 0x0FC19DC68B8CD5B5, 0x240CA1CC77AC9C65,
     0x2DE92C6F592B0275, 0x4A7484AA6EA6E483, 0x5CB0A9DCBD41FBD4, 0x76F988DA831153B5,
     0x983E5152EE66DFAB, 0xA831C66D2DB43210, 0xB00327C898FB213F, 0xBF597FC7BEEF0EE4,
     0xC6E00BF33DA88FC2, 0xD5A79147930AA725, 0x06CA6351E003826F, 0x142929670A0E6E70,
     0x27B70A8546D22FFC, 0x2E1B21385C26C926, 0x4D2C6DFC5AC42AED, 0x53380D139D95B3DF,
     0x650A73548BAF63DE, 0x766A0ABB3C77B2A8, 0x81C2C92E47EDAEE6, 0x92722C851482353B,
     0xA2BFE8A14CF10364, 0xA81A664BBC423001, 0xC24B8B70D0F89791, 0xC76C51A30654BE30,
     0xD192E819D6EF5218, 0xD69906245565A910, 0xF40E35855771202A, 0x106AA07032BBD1B8,
     0x19A4C116B8D2D0C8, 0x1E376C085141AB53, 0x2748774CDF8EEB99, 0x34B0BCB5E19B48A8,
     0x391C0CB3C5C95A63, 0x4ED8AA4AE3418ACB, 0x5B9CCA4F7763E373, 0x682E6FF3D6B2B8A3,
     0x748F82EE5DEFB2FC, 0x78A5636F43172F60, 0x84C87814A1F0AB72, 0x8CC702081A6439EC,
     0x90BEFFFA23631E28, 0xA4506CEBDE82BDE9, 0xBEF9A3F7B2C67915, 0xC67178F2E372532B,
     0xCA273ECEEA26619C, 0xD186B8C721C0C207, 0xEADA7DD6CDE0EB1E, 0xF57D4F7FEE6ED178,
     0x06F067AA72176FBA, 0x0A637DC5A2C898A6, 0x113F9804BEF90DAE, 0x1B710B35131C471B,
     0x28DB77F523047D84, 0x32CAAB7B40C72493, 0x3C9EBE0A15C9BEBC, 0x431D67C49C100D4C,
     0x4CC5D4BECB3E42B6, 0x597F299CFC657E2A, 0x5FCB6FAB3AD6FAEC, 0x6C44198C4A475817]"

definition sha512_H0 :: sha512_state where
  "sha512_H0 =
    (0x6A09E667F3BCC908, 0xBB67AE8584CAA73B, 0x3C6EF372FE94F82B, 0xA54FF53A5F1D36F1,
     0x510E527FADE682D1, 0x9B05688C2B3E6C1F, 0x1F83D9ABFB41BD6B, 0x5BE0CD19137E2179)"

text \<open>\<open>be_bytes n v\<close>: the \<open>n\<close> low bytes of \<open>v\<close>, most significant first.\<close>

definition be_bytes :: "nat \<Rightarrow> nat \<Rightarrow> byte list" where
  "be_bytes n v = map (\<lambda>i. of_nat (v div 256 ^ i)) (rev [0..<n])"

definition w64_of_bytes :: "byte list \<Rightarrow> w64" where
  "w64_of_bytes bs = of_nat (from_bytes_big bs)"

definition bytes_of_w64 :: "w64 \<Rightarrow> byte list" where
  "bytes_of_w64 w = be_bytes 8 (unat w)"

definition sha512_ch :: "w64 \<Rightarrow> w64 \<Rightarrow> w64 \<Rightarrow> w64" where
  "sha512_ch x y z = (x AND y) XOR (NOT x AND z)"

definition sha512_maj :: "w64 \<Rightarrow> w64 \<Rightarrow> w64 \<Rightarrow> w64" where
  "sha512_maj x y z = (x AND y) XOR (x AND z) XOR (y AND z)"

definition sha512_bsig0 :: "w64 \<Rightarrow> w64" where
  "sha512_bsig0 x = word_rotr 28 x XOR word_rotr 34 x XOR word_rotr 39 x"

definition sha512_bsig1 :: "w64 \<Rightarrow> w64" where
  "sha512_bsig1 x = word_rotr 14 x XOR word_rotr 18 x XOR word_rotr 41 x"

definition sha512_ssig0 :: "w64 \<Rightarrow> w64" where
  "sha512_ssig0 x = word_rotr 1 x XOR word_rotr 8 x XOR drop_bit 7 x"

definition sha512_ssig1 :: "w64 \<Rightarrow> w64" where
  "sha512_ssig1 x = word_rotr 19 x XOR word_rotr 61 x XOR drop_bit 6 x"

definition sha512_pad :: "byte list \<Rightarrow> byte list" where
  "sha512_pad msg =
     msg @ [0x80] @ replicate ((239 - length msg mod 128) mod 128) 0
         @ be_bytes 16 (8 * length msg)"

definition chunks_of :: "nat \<Rightarrow> 'a list \<Rightarrow> 'a list list" where
  "chunks_of n xs = map (\<lambda>i. slice (n * i) (n * i + n) xs) [0..<length xs div n]"

fun sha512_extend :: "nat \<Rightarrow> w64 list \<Rightarrow> w64 list" where
  "sha512_extend 0 w = w"
| "sha512_extend (Suc n) w =
     (let t = length w
      in sha512_extend n
           (w @ [sha512_ssig1 (w ! (t - 2)) + w ! (t - 7)
                 + sha512_ssig0 (w ! (t - 15)) + w ! (t - 16)]))"

definition sha512_schedule :: "byte list \<Rightarrow> w64 list" where
  "sha512_schedule block = sha512_extend 64 (map w64_of_bytes (chunks_of 8 block))"

fun sha512_round :: "sha512_state \<Rightarrow> w64 \<times> w64 \<Rightarrow> sha512_state" where
  "sha512_round (a, b, c, d, e, f, g, h) (k, w) =
     (let t1 = h + sha512_bsig1 e + sha512_ch e f g + k + w;
          t2 = sha512_bsig0 a + sha512_maj a b c
      in (t1 + t2, a, b, c, d + t1, e, f, g))"

fun sha512_add :: "sha512_state \<Rightarrow> sha512_state \<Rightarrow> sha512_state" where
  "sha512_add (a, b, c, d, e, f, g, h) (a', b', c', d', e', f', g', h') =
     (a + a', b + b', c + c', d + d', e + e', f + f', g + g', h + h')"

definition sha512_compress :: "sha512_state \<Rightarrow> byte list \<Rightarrow> sha512_state" where
  "sha512_compress s block =
     sha512_add s (foldl sha512_round s (zip sha512_K (sha512_schedule block)))"

fun sha512_digest :: "sha512_state \<Rightarrow> byte list" where
  "sha512_digest (a, b, c, d, e, f, g, h) =
     concat (map bytes_of_w64 [a, b, c, d, e, f, g, h])"

definition sha512 :: "byte list \<Rightarrow> byte list" where
  "sha512 msg = sha512_digest (foldl sha512_compress sha512_H0 (chunks_of 128 (sha512_pad msg)))"

text \<open>\<open>hmac.new(key, msg, hashlib.sha512).digest()\<close>; the block size of SHA-512 is 128.\<close>

definition hmac_sha512 :: "byte list \<Rightarrow> byte list \<Rightarrow> byte list" where
  "hmac_sha512 k msg =
     (let k0 = (if length k > 128 then sha512 k else k);
          kb = k0 @ replicate (128 - length k0) 0
      in sha512 (map (\<lambda>b. b XOR 0x5C) kb @ sha512 (map (\<lambda>b. b XOR 0x36) kb @ msg)))"

text \<open>PBKDF2 with HMAC-SHA512 as the pseudorandom function (output length 64).\<close>

definition xor_bytes :: "byte list \<Rightarrow> byte list \<Rightarrow> byte list" where
  "xor_bytes xs ys = map (\<lambda>(x, y). x XOR y) (zip xs ys)"

fun pbkdf2_chain :: "byte list \<Rightarrow> nat \<Rightarrow> byte list \<Rightarrow> byte list \<Rightarrow> byte list" where
  "pbkdf2_chain p 0 u acc = acc"
| "pbkdf2_chain p (Suc n) u acc =
     (let u' = hmac_sha512 p u in pbkdf2_chain p n u' (xor_bytes acc u'))"

definition pbkdf2_F :: "byte list \<Rightarrow> byte list \<Rightarrow> nat \<Rightarrow> nat \<Rightarrow> byte list" where
  "pbkdf2_F p s c i =
     (let u1 = hmac_sha512 p (s @ be_bytes 4 i) in pbkdf2_chain p (c - 1) u1 u1)"

definition PBKDF2_HMAC_SHA512 :: "byte list \<Rightarrow> byte list \<Rightarrow> nat \<Rightarrow> nat \<Rightarrow> byte list" where
  "PBKDF2_HMAC_SHA512 p s c dkLen =
     take dkLen (concat (map (pbkdf2_F p s c) [1..<Suc ((dkLen + 63) div 64)]))"

text \<open>
  \<open>hashlib.pbkdf2_hmac("sha512", password, salt, iterations, dklen=None)\<close>: without
  \<open>dklen\<close> the derived key has the length of the digest. The library rejects an iteration
  count below 1; the only call of this file passes the constant 2048.
\<close>

definition pbkdf2_hmac_sha512 ::
  "byte list \<Rightarrow> byte list \<Rightarrow> nat \<Rightarrow> nat option \<Rightarrow> byte list" where
  "pbkdf2_hmac_sha512 password salt iterations dklen =
     PBKDF2_HMAC_SHA512 password salt iterations (case dklen of None \<Rightarrow> 64 | Some n \<Rightarrow> n)"

section \<open>The class \<open>HDW\<close>\<close>

record HDW =
  strength :: "nat option"
  depth :: nat
  index :: nat
  parent_fingerprint :: pyseq
  seed :: "byte list option"
  mnemonic :: "pystr option"
  master_private_key :: "pyseq option"
  master_chain_code :: "pyseq option"
  key :: "signing_key option"
  verified_key :: "verifying_key option"

subsection \<open>\<open>_deserialize_xprivate_key\<close>\<close>

type_synonym xparts = "pyseq \<times> pyseq \<times> pyseq \<times> pyseq \<times> pyseq \<times> pyseq"

definition xprivate_fields :: "pyseq \<Rightarrow> xparts" where
  "xprivate_fields d =
     (py_slice 0 4 d, py_slice 4 5 d, py_slice 5 9 d, py_slice 9 13 d,
      py_slice 13 45 d, py_from 46 d)"

definition deserialize_xprivate_key :: "pyseq \<Rightarrow> bool \<Rightarrow> error + xparts" where
  "deserialize_xprivate_key xprivate_key encoded =
     (case (if encoded then b2a_hex xprivate_key else Inr xprivate_key) of
        Inl e \<Rightarrow> Inl e
      | Inr decoded_xprivate_key \<Rightarrow>
          if py_len decoded_xprivate_key \<noteq> 156 then Inl InvalidExtendedKeyLength
          else Inr (xprivate_fields decoded_xprivate_key))"

subsection \<open>\<open>from_xprivate_key\<close>\<close>

text \<open>
  A method that mutates \<open>self\<close> returns the error it raised, if any, together with the
  object as the call left it. The right-hand side of the tuple assignment to depth,
  parent fingerprint and index is evaluated in full before the first field is written.
\<close>

definition xprv_version :: "byte list" where
  "xprv_version = [0x04, 0x88, 0xAD, 0xE4]"

definition from_xprivate_key :: "HDW \<Rightarrow> pyseq \<Rightarrow> bool \<Rightarrow> error option \<times> HDW" where
  "from_xprivate_key self xprivate_key strict =
     (case deserialize_xprivate_key xprivate_key True of
        Inl e \<Rightarrow> (Some e, self)
      | Inr (p0, p1, p2, p3, p4, p5) \<Rightarrow>
          if strict \<and> p0 \<noteq> PyBytes xprv_version then (Some NotARootKey, self)
          else
            (case int_from_bytes p1 of
               Inl e \<Rightarrow> (Some e, self)
             | Inr d \<Rightarrow>
                 (case struct_unpack_L p3 of
                    Inl e \<Rightarrow> (Some e, self)
                  | Inr i \<Rightarrow>
                      (let self1 = self\<lparr>depth := d, parent_fingerprint := p2, index := i\<rparr>;
                           self2 = self1\<lparr>master_private_key := Some (py_slice 0 32 p4),
                                         master_chain_code := Some (py_from 32 p4)\<rparr>
                       in case SigningKey_from_string (py_slice 0 32 p4) of
                            Inl e \<Rightarrow> (Some e, self2)
                          | Inr k \<Rightarrow>
                              (None, self2\<lparr>key := Some k,
                                           verified_key := Some (get_verifying_key k)\<rparr>)))))"

subsection \<open>\<open>from_seed\<close>\<close>

text \<open>The method reads and writes no attribute of \<open>self\<close>: it is a function of the seed.\<close>

definition from_seed :: "byte list \<Rightarrow> byte list \<times> byte list" where
  "from_seed seed_bytes =
     (let k = ascii_bytes ''Bitcoin seed'';
          h = hmac_sha512 k seed_bytes;
          master_private_key = take 32 h;
          master_chain_code = drop 32 h
      in (master_private_key, master_chain_code))"

subsection \<open>\<open>__init__\<close>\<close>

text \<open>\<open>if seed:\<close> is false for \<open>None\<close> and for the empty string. A constructor that
  raises leaves no object.\<close>

definition new_HDW :: HDW where
  "new_HDW = \<lparr>strength = None, depth = 0, index = 0,
              parent_fingerprint = PyBytes [0, 0, 0, 0],
              seed = None, mnemonic = None,
              master_private_key = None, master_chain_code = None,
              key = None, verified_key = None\<rparr>"

definition init :: "pystr option \<Rightarrow> error + HDW" where
  "init seed_arg =
     (case seed_arg of
        None \<Rightarrow> Inr new_HDW
      | Some s \<Rightarrow>
          if s = [] then Inr new_HDW
          else (case unhexlify s of
                  Inl e \<Rightarrow> Inl e
                | Inr seed_bytes \<Rightarrow>
                    (case from_seed seed_bytes of
                       (k, c) \<Rightarrow>
                         Inr (new_HDW\<lparr>seed := Some seed_bytes,
                                      master_private_key := Some (PyBytes k),
                                      master_chain_code := Some (PyBytes c)\<rparr>))))"

subsection \<open>\<open>get_mnemonic_strength\<close>\<close>

text \<open>
  \<open>s.split(" ")\<close>: the pieces between single spaces (code point 32), empty pieces
  included, so the empty string has one (empty) word. \<open>unicodedata.normalize("NFKD", s)\<close> needs the
  decomposition tables of the Unicode database, which are data of the interpreter: the
  normalisation is the parameter \<open>nfkd\<close> of the functions that call it.
\<close>

fun split_space :: "pystr \<Rightarrow> pystr list" where
  "split_space [] = [[]]"
| "split_space (c # cs) =
     (if c = 32 then [] # split_space cs
      else (case split_space cs of
              [] \<Rightarrow> [[c]]
            | w # ws \<Rightarrow> (c # w) # ws))"

definition get_mnemonic_strength :: "(pystr \<Rightarrow> pystr) \<Rightarrow> pystr \<Rightarrow> error + nat" where
  "get_mnemonic_strength nfkd mnemonic_arg =
     (let words = length (split_space (nfkd mnemonic_arg)) in
      if words = 12 then Inr 128
      else if words = 15 then Inr 160
      else if words = 18 then Inr 192
      else if words = 21 then Inr 224
      else if words = 24 then Inr 256
      else Inl UnsupportedMnemonicLength)"

subsection \<open>\<open>to_seed\<close>\<close>

text \<open>Either \<open>encode\<close> may raise; the mnemonic is encoded first.\<close>

definition to_seed :: "pystr \<Rightarrow> pystr \<Rightarrow> error + byte list" where
  "to_seed mnemonic_arg passphrase =
     (let passphrase' = ascii_str ''mnemonic'' @ passphrase
      in case encode_utf8 mnemonic_arg of
           Inl e \<Rightarrow> Inl e
         | Inr mnemonic_bytes \<Rightarrow>
             (case encode_utf8 passphrase' of
                Inl e \<Rightarrow> Inl e
              | Inr passphrase_bytes \<Rightarrow>
                  (let stretched =
                         pbkdf2_hmac_sha512 mnemonic_bytes passphrase_bytes 2048 None
                   in Inr (take 64 stretched))))"

subsection \<open>\<open>from_mnemonic\<close>\<close>

definition from_mnemonic ::
  "(pystr \<Rightarrow> pystr) \<Rightarrow> HDW \<Rightarrow> pystr \<Rightarrow> pystr \<Rightarrow> error option \<times> HDW" where
  "from_mnemonic nfkd self mnemonic_arg passphrase =
     (let m = nfkd mnemonic_arg;
          self1 = self\<lparr>mnemonic := Some m\<rparr>
      in case get_mnemonic_strength nfkd m of
           Inl e \<Rightarrow> (Some e, self1)
         | Inr s \<Rightarrow>
             (let self2 = self1\<lparr>strength := Some s\<rparr>
              in case to_seed m passphrase of
                   Inl e \<Rightarrow> (Some e, self2)
                 | Inr sd \<Rightarrow>
                     (case from_seed sd of
                        (k, c) \<Rightarrow>
                          (None, self2\<lparr>master_private_key := Some (PyBytes k),
                                       master_chain_code := Some (PyBytes c)\<rparr>))))"

section \<open>Serialized keys\<close>

text \<open>
  The layout of an extended private key as the specification declares it, written from
  its words: version (4 bytes), depth (1 byte), parent fingerprint (4 bytes), child index
  (4 bytes, big-endian), key payload (a zero byte and the 32-byte private key), chain code
  (32 bytes). It is the encoder against which the round trip is stated; the source has
  no encoder.
\<close>

definition spec_serialize_xprivate_key ::
  "byte list \<Rightarrow> nat \<Rightarrow> byte list \<Rightarrow> nat \<Rightarrow> byte list \<Rightarrow> byte list \<Rightarrow> byte list" where
  "spec_serialize_xprivate_key version d fingerprint i private_key chain_code =
     version @ be_bytes 1 d @ fingerprint @ be_bytes 4 i @ [0] @ private_key @ chain_code"

text \<open>The root key of the first test vector of BIP32 (78 bytes, version \<open>0488ADE4\<close>).\<close>

definition bip32_vector1_root :: "byte list" where
  "bip32_vector1_root =
     [0x04, 0x88, 0xAD, 0xE4, 0x00, 0x00, 0x00, 0x00, 0x00, 0x00, 0x00, 0x00, 0x00,
      0x87, 0x3D, 0xFF, 0x81, 0xC0, 0x2F, 0x52, 0x56, 0x23, 0xFD, 0x1F, 0xE5, 0x16,
      0x7E, 0xAC, 0x3A, 0x55, 0xA0, 0x49, 0xDE, 0x3D, 0x31, 0x4B, 0xB4, 0x2E, 0xE2,
      0x27, 0xFF, 0xED, 0x37, 0xD5, 0x08, 0x00, 0xE8, 0xF3, 0x2E, 0x72, 0x3D, 0xEC,
      0xF4, 0x05, 0x1A, 0xEF, 0xAC, 0x8E, 0x2C, 0x93, 0xC9, 0xC5, 0xB2, 0x14, 0x31,
      0x38, 0x17, 0xCD, 0xB0, 0x1A, 0x14, 0x94, 0xB9, 0x17, 0xC8, 0x43, 0x6B, 0x35]"

text \<open>A child key: depth 1, parent fingerprint \<open>3442193E\<close>, index \<open>2^31\<close>.\<close>

definition example_private_key :: "byte list" where
  "example_private_key =
     [0xED, 0xB2, 0xE1, 0x4F, 0x9E, 0xE7, 0x7D, 0x26, 0xDD, 0x93, 0xB4, 0xEC, 0xED,
      0xE8, 0xD1, 0x6E, 0xD4, 0x08, 0xCE, 0x14, 0x9B, 0x6C, 0xD8, 0x0B, 0x07, 0x15,
      0xA2, 0xD9, 0x11, 0xA0, 0xAF, 0xEA]"

definition example_chain_code :: "byte list" where
  "example_chain_code =
     [0x47, 0xFD, 0xAC, 0xBD, 0x0F, 0x10, 0x97, 0x04, 0x3B, 0x78, 0xC6, 0x3C, 0x20,
      0xC3, 0x4E, 0xF4, 0xED, 0x9A, 0x11, 0x1D, 0x98, 0x00, 0x47, 0xAD, 0x16, 0x28,
      0x2C, 0x7A, 0xE6, 0x23, 0x61, 0x41]"

definition example_child_key :: "byte list" where
  "example_child_key =
     spec_serialize_xprivate_key xprv_version 1 [0x34, 0x42, 0x19, 0x3E] (2 ^ 31)
       example_private_key example_chain_code"

section \<open>Lengths of the digests\<close>

lemma length_be_bytes: "length (be_bytes n v) = n"
  by (simp add: be_bytes_def)

lemma length_sha512_digest: "length (sha512_digest s) = 64"
  by (cases s rule: sha512_digest.cases) (simp add: bytes_of_w64_def length_be_bytes)

lemma length_sha512: "length (sha512 msg) = 64"
  by (simp add: sha512_def length_sha512_digest)

lemma length_hmac_sha512: "length (hmac_sha512 k msg) = 64"
  by (simp add: hmac_sha512_def Let_def length_sha512)

lemma bitcoin_seed_ascii:
  "ascii_bytes ''Bitcoin seed'' =
     [0x42, 0x69, 0x74, 0x63, 0x6F, 0x69, 0x6E, 0x20, 0x73, 0x65, 0x65, 0x64]"
  by (simp add: ascii_bytes_def)





section \<open>Hexadecimal digits and big-endian numbers\<close>

lemma hexlify_Cons: "hexlify (b # bs) = hex_of_byte b @ hexlify bs"
  by (simp add: hexlify_def)

lemma length_hexlify: "length (hexlify bs) = 2 * length bs"
  by (induction bs) (simp_all add: hexlify_def hex_of_byte_def)

lemma unat_of_nat_byte: "k < 256 \<Longrightarrow> unat (of_nat k :: byte) = k"
  by (simp add: unat_of_nat)

lemma unat_hex_digit:
  assumes "n < 16"
  shows "unat (hex_digit n) = (if n < 10 then 48 + n else 87 + n)"
proof (cases "n < 10")
  case True
  have "unat (of_nat (48 + n) :: byte) = 48 + n"
    by (rule unat_of_nat_byte) (use assms in simp)
  with True show ?thesis by (simp only: hex_digit_def if_True)
next
  case False
  have "unat (of_nat (87 + n) :: byte) = 87 + n"
    by (rule unat_of_nat_byte) (use assms in simp)
  with False show ?thesis by (simp only: hex_digit_def if_False)
qed

lemma hex_digit_range: "n < 16 \<Longrightarrow> 48 \<le> unat (hex_digit n) \<and> unat (hex_digit n) \<le> 102"
  by (simp add: unat_hex_digit)

lemma hex_of_byte_range: "c \<in> set (hex_of_byte b) \<Longrightarrow> 48 \<le> unat c \<and> unat c \<le> 102"
proof -
  have "unat b < 256" using unsigned_less [of b, where ?'a = nat] by simp
  then have "unat b div 16 < 16" by (simp add: less_mult_imp_div_less)
  moreover have "unat b mod 16 < 16" by simp
  ultimately show "c \<in> set (hex_of_byte b) \<Longrightarrow> ?thesis"
    using hex_digit_range by (auto simp: hex_of_byte_def)
qed

lemma hexlify_range: "c \<in> set (hexlify bs) \<Longrightarrow> 48 \<le> unat c \<and> unat c \<le> 102"
  by (induction bs) (auto simp: hexlify_def dest: hex_of_byte_range)

lemma from_bytes_big_snoc:
  "from_bytes_big (bs @ [b]) = 256 * from_bytes_big bs + unat b"
  by (simp add: from_bytes_big_def)

lemma from_bytes_big_Cons:
  "from_bytes_big (b # bs) = unat b * 256 ^ length bs + from_bytes_big bs"
proof (induction bs rule: rev_induct)
  case Nil
  show ?case by (simp add: from_bytes_big_def)
next
  case (snoc c bs)
  have "from_bytes_big (b # bs @ [c]) = 256 * from_bytes_big (b # bs) + unat c"
    using from_bytes_big_snoc [of "b # bs" c] by simp
  then show ?case
    by (simp add: snoc.IH from_bytes_big_snoc algebra_simps)
qed

lemma from_bytes_big_less: "from_bytes_big bs < 256 ^ length bs"
proof (induction bs rule: rev_induct)
  case Nil
  show ?case by (simp add: from_bytes_big_def)
next
  case (snoc b bs)
  have "unat b < 256" using unsigned_less [of b, where ?'a = nat] by simp
  with snoc.IH show ?case
    by (simp add: from_bytes_big_snoc)
qed

lemma hex_key_in_range:
  assumes len: "length bs = 32"
    and rng: "\<And>c. c \<in> set bs \<Longrightarrow> 48 \<le> unat c \<and> unat c \<le> 102"
  shows "1 \<le> from_bytes_big bs \<and> from_bytes_big bs < secp256k1_order"
proof -
  from len obtain b bs' where bs: "bs = b # bs'" and len': "length bs' = 31"
    by (cases bs) auto
  have b: "48 \<le> unat b" "unat b \<le> 102" using rng [of b] bs by auto
  have t: "from_bytes_big bs' < 256 ^ 31" using from_bytes_big_less [of bs'] len' by simp
  have v: "from_bytes_big bs = unat b * 256 ^ 31 + from_bytes_big bs'"
    by (simp add: bs from_bytes_big_Cons len')
  have lo: "48 * (256::nat) ^ 31 \<le> unat b * 256 ^ 31" using b(1) by (rule mult_le_mono1)
  have hi: "unat b * (256::nat) ^ 31 \<le> 102 * 256 ^ 31" using b(2) by (rule mult_le_mono1)
  have "1 \<le> from_bytes_big bs" using lo v by simp
  moreover have "from_bytes_big bs < 103 * 256 ^ 31" using hi t v by simp
  moreover have "103 * (256::nat) ^ 31 < secp256k1_order" by (simp add: secp256k1_order_def)
  ultimately show ?thesis by simp
qed

section \<open>What \<open>from_xprivate_key\<close> computes\<close>

lemma set_slice_subset: "set (slice a b xs) \<subseteq> set xs"
  unfolding slice_def by (meson set_take_subset set_drop_subset subset_trans)

lemma length_slice: "b \<le> length xs \<Longrightarrow> length (slice a b xs) = b - a"
  by (auto simp: slice_def)

lemma deserialize_bytes:
  "deserialize_xprivate_key (PyBytes bs) True =
     (if length bs \<noteq> 78 then Inl InvalidExtendedKeyLength
      else Inr (xprivate_fields (PyBytes (hexlify bs))))"
  by (simp add: deserialize_xprivate_key_def length_hexlify)

text \<open>No four hexadecimal digits are the four raw version bytes: the first of these
  bytes is 4, below every digit.\<close>

lemma version_never_matches:
  assumes "length h = 156" and "\<And>c. c \<in> set h \<Longrightarrow> 48 \<le> unat c \<and> unat c \<le> 102"
  shows "slice 0 4 h \<noteq> xprv_version"
proof
  assume eq: "slice 0 4 h = xprv_version"
  have "(4 :: byte) \<in> set xprv_version" by (simp add: xprv_version_def)
  with eq have "(4 :: byte) \<in> set h" using set_slice_subset [of 0 4 h] by auto
  from assms(2) [OF this] show False by simp
qed

lemma signing_key_of_hex:
  assumes "length h = 156" and "\<And>c. c \<in> set h \<Longrightarrow> 48 \<le> unat c \<and> unat c \<le> 102"
  shows "SigningKey_from_string (PyBytes (slice 13 45 h))
           = Inr (SigningKey (from_bytes_big (slice 13 45 h)))"
proof -
  have l: "length (slice 13 45 h) = 32" using assms(1) by (simp add: length_slice)
  have "\<And>c. c \<in> set (slice 13 45 h) \<Longrightarrow> 48 \<le> unat c \<and> unat c \<le> 102"
    using assms(2) set_slice_subset [of 13 45 h] by blast
  from hex_key_in_range [OF l this] l show ?thesis by simp
qed

lemma from_xprivate_key_bytes:
  "from_xprivate_key self (PyBytes bs) strict =
     (if length bs \<noteq> 78 then (Some InvalidExtendedKeyLength, self)
      else if strict then (Some NotARootKey, self)
      else (None,
            self\<lparr>depth := from_bytes_big (slice 4 5 (hexlify bs)),
                 parent_fingerprint := PyBytes (slice 5 9 (hexlify bs)),
                 index := from_bytes_big (slice 9 13 (hexlify bs)),
                 master_private_key := Some (PyBytes (slice 13 45 (hexlify bs))),
                 master_chain_code := Some (PyBytes []),
                 key := Some (SigningKey (from_bytes_big (slice 13 45 (hexlify bs)))),
                 verified_key :=
                   Some (VerifyingKeyOf
                           (SigningKey (from_bytes_big (slice 13 45 (hexlify bs)))))\<rparr>))"
proof (cases "length bs = 78")
  case False
  then show ?thesis by (simp add: from_xprivate_key_def deserialize_bytes)
next
  case True
  let ?h = "hexlify bs"
  have len: "length ?h = 156" using True by (simp add: length_hexlify)
  have rng: "\<And>c. c \<in> set ?h \<Longrightarrow> 48 \<le> unat c \<and> unat c \<le> 102" by (rule hexlify_range)
  have v: "slice 0 4 ?h \<noteq> xprv_version" by (rule version_never_matches [OF len rng])
  have k: "SigningKey_from_string (PyBytes (slice 13 45 ?h))
             = Inr (SigningKey (from_bytes_big (slice 13 45 ?h)))"
    by (rule signing_key_of_hex [OF len rng])
  have l4: "length (slice 9 13 ?h) = 4" using len by (simp add: length_slice)
  have s32: "slice 0 32 (slice 13 45 ?h) = slice 13 45 ?h" by (simp add: slice_def)
  have d32: "drop 32 (slice 13 45 ?h) = []" by (simp add: slice_def)
  show ?thesis
    using True v k l4 s32 d32
    by (simp add: from_xprivate_key_def deserialize_bytes xprivate_fields_def
        get_verifying_key_def Let_def)
qed

lemma from_xprivate_key_str:
  "from_xprivate_key self (PyStr s) strict =
     (Some (TypeError ''a bytes-like object is required, not str''), self)"
  by (simp add: from_xprivate_key_def deserialize_xprivate_key_def)

section \<open>The example keys\<close>

lemma upt_0_4: "[0..<4] = [0, 1, 2, 3]" and upt_0_1: "[0..<1] = [0]"
  by (simp_all add: upt_rec)

lemma be_bytes_examples:
  "be_bytes 4 2147483648 = [0x80, 0, 0, 0]" "be_bytes (Suc 0) (Suc 0) = [1]"
  by (simp_all add: be_bytes_def upt_0_4)

lemma hexlify_example_child:
  "hexlify example_child_key =
     ascii_bytes (''0488ade4013442193e8000000000edb2e14f9ee77d26dd93b4ecede8d16ed408ce149b6cd80b0715a2d911a0afea''
           @ ''47fdacbd0f1097043b78c63c20c34ef4ed9a111d980047ad16282c7ae6236141'')"
  by (simp add: example_child_key_def spec_serialize_xprivate_key_def xprv_version_def
      example_private_key_def example_chain_code_def be_bytes_examples
      hexlify_def hex_of_byte_def hex_digit_def ascii_bytes_def)


lemma hexlify_vector1:
  "hexlify bip32_vector1_root =
     ascii_bytes (''0488ade4000000000000000000873dff81c02f525623fd1fe5167eac3a55a049de3d314bb42ee227ffed37d508''
           @ ''00e8f32e723decf4051aefac8e2c93c9c5b214313817cdb01a1494b917c8436b35'')"
  by (simp add: bip32_vector1_root_def hexlify_def hex_of_byte_def hex_digit_def ascii_bytes_def)

lemma length_vector1: "length bip32_vector1_root = 78"
  by (simp add: bip32_vector1_root_def)

lemma length_example_child: "length example_child_key = 78"
  by (simp add: example_child_key_def spec_serialize_xprivate_key_def xprv_version_def
      example_private_key_def example_chain_code_def length_be_bytes)

section \<open>Deserialization of an extended private key\<close>

text \<open>
  C1. The claim has the fields cut at the byte offsets of the layout, doubled for the
  hexadecimal text: version from bytes 0 to 3, depth from byte 4, and so on. The function
  cuts the hexadecimal text at the undoubled offsets. On the root key of the first BIP32
  test vector, whose first four bytes are \<open>04 88 AD E4\<close>, the version field it returns
  is the four characters "0488" (two bytes of the key), the depth field is the character
  "a", the fingerprint is "de40", the index field is "0000", the key payload is 32
  characters that start inside the fingerprint, and the last field is the remaining 110
  characters.
\<close>

theorem deserialize_slices_hex_text:
  "deserialize_xprivate_key (PyBytes bip32_vector1_root) True =
     Inr (PyBytes (ascii_bytes ''0488''), PyBytes (ascii_bytes ''a''), PyBytes (ascii_bytes ''de40''),
          PyBytes (ascii_bytes ''0000''),
          PyBytes (ascii_bytes ''0000000000000873dff81c02f525623f''),
          PyBytes (ascii_bytes (''1fe5167eac3a55a049de3d314bb42ee227ffed37d508''
             @ ''00e8f32e723decf4051aefac8e2c93c9c5b214313817cdb01a1494b917c8436b35'')))
   \<and> take 4 bip32_vector1_root = [0x04, 0x88, 0xAD, 0xE4]"
  by (simp add: deserialize_bytes length_vector1 xprivate_fields_def hexlify_vector1
      slice_def ascii_bytes_def)
    (simp add: bip32_vector1_root_def)

text \<open>
  C2. An extended key is laid out as the specification declares, with depth 1, parent
  fingerprint \<open>3442193E\<close>, child index \<open>2^31\<close>, a private key and a chain code of 32
  bytes each. \<open>from_xprivate_key\<close> accepts it and stores depth 97 (the character "a"),
  the fingerprint "de40", the index 825439284, 32 hexadecimal characters as the private
  key and an empty chain code: none of the five encoded values comes back.
\<close>

theorem from_xprivate_key_no_round_trip:
  "from_xprivate_key new_HDW (PyBytes example_child_key) False =
     (None,
      new_HDW\<lparr>depth := 97,
              parent_fingerprint := PyBytes (ascii_bytes ''de40''),
              index := 825439284,
              master_private_key := Some (PyBytes (ascii_bytes ''2193e8000000000edb2e14f9ee77d26d'')),
              master_chain_code := Some (PyBytes []),
              key := Some (SigningKey (from_bytes_big (ascii_bytes ''2193e8000000000edb2e14f9ee77d26d''))),
              verified_key := Some (VerifyingKeyOf
                 (SigningKey (from_bytes_big (ascii_bytes ''2193e8000000000edb2e14f9ee77d26d''))))\<rparr>)"
  by (simp add: from_xprivate_key_bytes length_example_child hexlify_example_child
      slice_def ascii_bytes_def from_bytes_big_def)

text \<open>
  C7. With the strict flag set, \<open>from_xprivate_key\<close> never returns normally, whatever the
  input: the version field it compares with the marker \<open>04 88 AD E4\<close> is four hexadecimal
  characters. In particular it raises \<open>NotARootKey\<close> on the root key of the first BIP32
  test vector, whose version bytes are that marker.
\<close>

theorem strict_rejects_canonical_root:
  "fst (from_xprivate_key self x True) \<noteq> None
   \<and> from_xprivate_key self (PyBytes bip32_vector1_root) True = (Some NotARootKey, self)
   \<and> take 4 bip32_vector1_root = xprv_version"
proof -
  have "fst (from_xprivate_key self x True) \<noteq> None"
    by (cases x) (simp_all add: from_xprivate_key_bytes from_xprivate_key_str)
  moreover have "take 4 bip32_vector1_root = xprv_version"
    by (simp add: bip32_vector1_root_def xprv_version_def)
  ultimately show ?thesis
    by (simp add: from_xprivate_key_bytes length_vector1)
qed

text \<open>
  C10. After the successful import of the root key of the first BIP32 test vector the
  stored chain code is the empty byte string, not a 32-byte value.
\<close>

theorem imported_chain_code_empty:
  "fst (from_xprivate_key new_HDW (PyBytes bip32_vector1_root) False) = None
   \<and> master_chain_code (snd (from_xprivate_key new_HDW (PyBytes bip32_vector1_root) False))
       = Some (PyBytes [])"
  by (simp add: from_xprivate_key_bytes length_vector1)

section \<open>Master key derivation\<close>

text \<open>
  C3. For every byte sequence given as the seed, without any condition on its length,
  \<open>from_seed\<close> returns the first 32 and the last 32 bytes of \<open>H\<close>, the HMAC-SHA512 of the
  seed under the key made of the ASCII bytes of "Bitcoin seed": both components are 32
  bytes long and their concatenation is \<open>H\<close>.
\<close>

theorem from_seed_hmac_halves:
  "(let H = hmac_sha512
              [0x42, 0x69, 0x74, 0x63, 0x6F, 0x69, 0x6E, 0x20, 0x73, 0x65, 0x65, 0x64]
              seed_bytes
    in from_seed seed_bytes = (take 32 H, drop 32 H)
       \<and> length (fst (from_seed seed_bytes)) = 32
       \<and> length (snd (from_seed seed_bytes)) = 32
       \<and> fst (from_seed seed_bytes) @ snd (from_seed seed_bytes) = H)"
  by (simp add: from_seed_def Let_def bitcoin_seed_ascii length_hmac_sha512)

section \<open>Seed stretching\<close>

lemma utf8_char_None:
  "utf8_char c = None \<longleftrightarrow> \<not> (c < 0x110000 \<and> \<not> (0xD800 \<le> c \<and> c < 0xE000))"
  by (auto simp: utf8_char_def)

lemma encode_utf8_encodable: "encodable s \<Longrightarrow> \<exists>bs. encode_utf8 s = Inr bs"
proof (induction s)
  case Nil
  show ?case by simp
next
  case (Cons c cs)
  from Cons.prems have "utf8_char c \<noteq> None" and "encodable cs"
    by (simp_all add: encodable_def utf8_char_None)
  with Cons.IH show ?case by auto
qed

lemma encode_utf8_unencodable:
  "\<not> encodable s \<Longrightarrow> encode_utf8 s = Inl (UnicodeEncodeError ''surrogates not allowed'')"
proof (induction s)
  case Nil
  then show ?case by (simp add: encodable_def)
next
  case (Cons c cs)
  show ?case
  proof (cases "utf8_char c")
    case None
    then show ?thesis by simp
  next
    case (Some bs)
    then have "\<not> encodable cs"
      using Cons.prems utf8_char_None [of c] by (auto simp: encodable_def)
    with Cons.IH Some show ?thesis by simp
  qed
qed




lemma to_seed_unencodable:
  "\<not> encodable mnemonic_arg \<or> \<not> encodable passphrase \<Longrightarrow>
     to_seed mnemonic_arg passphrase = Inl (UnicodeEncodeError ''surrogates not allowed'')"
proof (cases "encodable mnemonic_arg")
  case False
  then show ?thesis by (simp add: to_seed_def encode_utf8_unencodable)
next
  case True
  assume "\<not> encodable mnemonic_arg \<or> \<not> encodable passphrase"
  with True have "\<not> encodable (ascii_str ''mnemonic'' @ passphrase)"
    by (simp add: encodable_def)
  then show ?thesis
    using encode_utf8_encodable [OF True]
    by (auto simp: to_seed_def encode_utf8_unencodable)
qed




section \<open>The length check and failed imports\<close>

text \<open>
  C6. The argument is documented as a \<open>str\<close>, and an improperly sized key is to raise
  the \<open>ValueError\<close>. With \<open>encoded\<close> set, as \<open>from_xprivate_key\<close> always calls it,
  deserialization of a \<open>str\<close> raises \<open>TypeError\<close> in \<open>b2a_hex\<close>, whatever its
  length: the empty string does not raise \<open>InvalidExtendedKeyLength\<close>, and no string
  reaches the length check. On a \<open>bytes\<close> argument the check is as claimed: the error is
  raised exactly when the hexadecimal text is not 156 characters long, and otherwise the
  fields are cut out of that text; with \<open>encoded\<close> unset the same holds of the length of
  the argument itself.
\<close>

theorem deserialize_length_check:
  "deserialize_xprivate_key (PyStr s) True
     = Inl (TypeError ''a bytes-like object is required, not str'')
   \<and> deserialize_xprivate_key (PyStr []) True \<noteq> Inl InvalidExtendedKeyLength
   \<and> from_xprivate_key self (PyStr s) strict
       = (Some (TypeError ''a bytes-like object is required, not str''), self)
   \<and> (deserialize_xprivate_key (PyBytes bs) True = Inl InvalidExtendedKeyLength
      \<longleftrightarrow> length (hexlify bs) \<noteq> 156)
   \<and> (deserialize_xprivate_key (PyBytes bs) True = Inr (xprivate_fields (PyBytes (hexlify bs)))
      \<longleftrightarrow> length (hexlify bs) = 156)
   \<and> (deserialize_xprivate_key d False = Inl InvalidExtendedKeyLength \<longleftrightarrow> py_len d \<noteq> 156)
   \<and> (deserialize_xprivate_key d False = Inr (xprivate_fields d) \<longleftrightarrow> py_len d = 156)
   \<and> deserialize_xprivate_key (PyBytes []) True = Inl InvalidExtendedKeyLength
   \<and> deserialize_xprivate_key (PyBytes (replicate 77 b)) True = Inl InvalidExtendedKeyLength
   \<and> deserialize_xprivate_key (PyBytes (replicate 79 b)) True = Inl InvalidExtendedKeyLength
   \<and> deserialize_xprivate_key (PyStr (replicate 155 c)) False = Inl InvalidExtendedKeyLength
   \<and> deserialize_xprivate_key (PyStr (replicate 157 c)) False = Inl InvalidExtendedKeyLength
   \<and> (from_xprivate_key self (PyBytes bs) strict = (Some InvalidExtendedKeyLength, self)
      \<longleftrightarrow> length (hexlify bs) \<noteq> 156)"
  by (auto simp: deserialize_xprivate_key_def length_hexlify from_xprivate_key_bytes
      from_xprivate_key_str InvalidExtendedKeyLength_def NotARootKey_def)

text \<open>
  C8. Whenever \<open>from_xprivate_key\<close> raises an error, and so in particular on an input
  of the wrong length and on a version mismatch in strict mode, the object is exactly as
  it was before the call: depth, index and parent fingerprint are unchanged.
\<close>

theorem from_xprivate_key_failure_atomic:
  "fst (from_xprivate_key self x strict) = Some e \<Longrightarrow>
     snd (from_xprivate_key self x strict) = self
     \<and> depth (snd (from_xprivate_key self x strict)) = depth self
     \<and> index (snd (from_xprivate_key self x strict)) = index self
     \<and> parent_fingerprint (snd (from_xprivate_key self x strict)) = parent_fingerprint self"
  by (cases x) (auto simp: from_xprivate_key_bytes from_xprivate_key_str split: if_splits)

theorem from_xprivate_key_failure_atomic_witness:
  "fst (from_xprivate_key new_HDW (PyBytes []) False) = Some InvalidExtendedKeyLength
   \<and> fst (from_xprivate_key new_HDW (PyBytes bip32_vector1_root) True) = Some NotARootKey
   \<and> snd (from_xprivate_key new_HDW (PyBytes []) False) = new_HDW
   \<and> depth (snd (from_xprivate_key new_HDW (PyBytes bip32_vector1_root) True)) = 0"
proof -
  have a: "fst (from_xprivate_key new_HDW (PyBytes []) False) = Some InvalidExtendedKeyLength"
    by (simp add: from_xprivate_key_bytes)
  have b: "fst (from_xprivate_key new_HDW (PyBytes bip32_vector1_root) True) = Some NotARootKey"
    by (simp add: from_xprivate_key_bytes length_vector1)
  show ?thesis
    using a b from_xprivate_key_failure_atomic [OF a] from_xprivate_key_failure_atomic [OF b]
    by (simp add: new_HDW_def)
qed

section \<open>Mnemonic strength\<close>

lemma split_space_nonempty: "split_space s \<noteq> []"
  by (induction s) (auto split: list.splits)

lemma length_split_space:
  "length (split_space s) = Suc (length (filter (\<lambda>c. c = 32) s))"
  by (induction s) (auto split: list.splits simp: split_space_nonempty)

lemma split_space_no_space: "w \<in> set (split_space s) \<Longrightarrow> 32 \<notin> set w"
  by (induction s arbitrary: w) (auto split: list.splits if_splits)

text \<open>
  C5. \<open>get_mnemonic_strength\<close> normalises the mnemonic, splits it at every single
  space (code point 32) and looks the number of words up in the table 12 to 128, 15 to 160, 18 to 192,
  21 to 224, 24 to 256; a number of words that is not in the table raises
  \<open>UnsupportedMnemonicLength\<close>. The number of words is one more than the number of
  spaces of the normalised mnemonic. The function takes and returns no object state.
\<close>

theorem get_mnemonic_strength_table:
  "get_mnemonic_strength nfkd mnemonic_arg =
     (case map_of [(12, 128), (15, 160), (18, 192), (21, 224), (24, 256)]
             (length (split_space (nfkd mnemonic_arg))) of
        Some s \<Rightarrow> Inr s
      | None \<Rightarrow> Inl UnsupportedMnemonicLength)
   \<and> length (split_space (nfkd mnemonic_arg))
       = Suc (length (filter (\<lambda>c. c = 32) (nfkd mnemonic_arg)))"
  by (simp add: get_mnemonic_strength_def Let_def length_split_space)

section \<open>The derivation state\<close>

lemma init_fields:
  "init seed_arg = Inr h \<Longrightarrow>
     depth h = 0 \<and> index h = 0 \<and> parent_fingerprint h = PyBytes [0, 0, 0, 0]"
  by (auto simp: init_def new_HDW_def split: option.splits if_splits sum.splits prod.splits)

lemma from_mnemonic_fields:
  "depth (snd (from_mnemonic nfkd self m p)) = depth self
   \<and> index (snd (from_mnemonic nfkd self m p)) = index self
   \<and> parent_fingerprint (snd (from_mnemonic nfkd self m p)) = parent_fingerprint self"
  by (simp add: from_mnemonic_def Let_def split: sum.splits prod.splits)

lemma from_xprivate_key_failure_fields:
  "fst (from_xprivate_key self x strict) \<noteq> None \<Longrightarrow>
     snd (from_xprivate_key self x strict) = self"
  by (cases x) (auto simp: from_xprivate_key_bytes from_xprivate_key_str split: if_splits)

lemma init_of_seed:
  "init (Some (ascii_str ''00'')) =
     Inr (new_HDW\<lparr>seed := Some [0],
                  master_private_key := Some (PyBytes (fst (from_seed [0]))),
                  master_chain_code := Some (PyBytes (snd (from_seed [0])))\<rparr>)"
  by (simp add: init_def unhexlify_def hex_value_def ascii_str_def split_beta)

text \<open>
  C9. A constructed object, with or without a seed, has depth 0, index 0 and a parent
  fingerprint of four zero bytes; \<open>from_mnemonic\<close> leaves the three fields as they are,
  whether it returns or raises; \<open>from_seed\<close> is a function of the seed alone; and a call
  of \<open>from_xprivate_key\<close> that raises leaves them as they are, so that only a successful
  import changes them.
\<close>

theorem derivation_state_frame:
  "(init seed_arg = Inr h \<longrightarrow>
      depth h = 0 \<and> index h = 0 \<and> parent_fingerprint h = PyBytes [0, 0, 0, 0])
   \<and> depth (snd (from_mnemonic nfkd self m p)) = depth self
   \<and> index (snd (from_mnemonic nfkd self m p)) = index self
   \<and> parent_fingerprint (snd (from_mnemonic nfkd self m p)) = parent_fingerprint self
   \<and> (fst (from_xprivate_key self x strict) \<noteq> None \<longrightarrow>
        depth (snd (from_xprivate_key self x strict)) = depth self
        \<and> index (snd (from_xprivate_key self x strict)) = index self
        \<and> parent_fingerprint (snd (from_xprivate_key self x strict)) = parent_fingerprint self)"
  using init_fields [of seed_arg h] from_mnemonic_fields [of nfkd self m p]
    from_xprivate_key_failure_fields [of self x strict]
  by auto

theorem derivation_state_frame_witness:
  "init (Some (ascii_str ''00'')) =
     Inr (new_HDW\<lparr>seed := Some [0],
                  master_private_key := Some (PyBytes (fst (from_seed [0]))),
                  master_chain_code := Some (PyBytes (snd (from_seed [0])))\<rparr>)
   \<and> depth (new_HDW\<lparr>seed := Some [0],
                  master_private_key := Some (PyBytes (fst (from_seed [0]))),
                  master_chain_code := Some (PyBytes (snd (from_seed [0])))\<rparr>) = 0
   \<and> fst (from_xprivate_key new_HDW (PyBytes []) True) \<noteq> None
   \<and> depth (snd (from_xprivate_key new_HDW (PyBytes []) True)) = depth new_HDW
   \<and> depth (snd (from_mnemonic (\<lambda>s. s) new_HDW (ascii_str ''abandon'') [])) = 0"
proof -
  let ?h = "new_HDW\<lparr>seed := Some [0],
                  master_private_key := Some (PyBytes (fst (from_seed [0]))),
                  master_chain_code := Some (PyBytes (snd (from_seed [0])))\<rparr>"
  have a: "init (Some (ascii_str ''00'')) = Inr ?h" by (rule init_of_seed)
  have b: "fst (from_xprivate_key new_HDW (PyBytes []) True) \<noteq> None"
    by (simp add: from_xprivate_key_bytes)
  have c: "depth new_HDW = 0" by (simp add: new_HDW_def)
  show ?thesis
    using a b c
      derivation_state_frame [of "Some (ascii_str ''00'')" ?h "\<lambda>s. s" new_HDW "ascii_str ''abandon''" "[]" "PyBytes []" True]
    by simp
qed

section \<open>Length of the stored chain code\<close>

lemma init_chain_code_length:
  "init (Some s) = Inr h \<Longrightarrow> s \<noteq> [] \<Longrightarrow>
     \<exists>k c. master_private_key h = Some (PyBytes k) \<and> length k = 32
          \<and> master_chain_code h = Some (PyBytes c) \<and> length c = 32"
  by (auto simp: init_def from_seed_def Let_def length_hmac_sha512 split: sum.splits)

lemma from_mnemonic_chain_code_length:
  "fst (from_mnemonic nfkd self m p) = None \<Longrightarrow>
     \<exists>k c. master_private_key (snd (from_mnemonic nfkd self m p)) = Some (PyBytes k)
          \<and> length k = 32
          \<and> master_chain_code (snd (from_mnemonic nfkd self m p)) = Some (PyBytes c)
          \<and> length c = 32"
  by (auto simp: from_mnemonic_def from_seed_def Let_def length_hmac_sha512 split: sum.splits)

lemma from_xprivate_key_chain_code:
  "fst (from_xprivate_key self x strict) = None \<Longrightarrow>
     master_chain_code (snd (from_xprivate_key self x strict)) = Some (PyBytes [])"
  by (cases x) (auto simp: from_xprivate_key_bytes from_xprivate_key_str split: if_splits)

end
